theory Spec2Isabelle
  imports Complex_Main "HOL-Library.FSet" "HOL-Library.Stream"
begin

section \<open>Metropolis-Hastings random walk sampler\<close>

text \<open>
  A shallow embedding of \<^verbatim>\<open>metropolishastingsrandomwalksampler.py\<close>.

  \<^item> A networkx graph is its adjacency structure: an association list from a node to the
    list of its neighbours, in insertion order.
  \<^item> Python's global \<^verbatim>\<open>random\<close> state and the console are the \<open>world\<close>: a stream of raw
    draws, one element consumed by each call of the \<^verbatim>\<open>random\<close> module, and the lines
    printed so far.  Every operation returns the world it leaves behind, also when it
    raises, so that what ran before a failure stays observable.
  \<^item> Exceptions are values of type \<open>error\<close>.
  \<^item> Python floats are idealised as reals: rounding of the division and of the power
    is not modelled.
\<close>

subsection \<open>Data\<close>

type_synonym node = int

type_synonym graph = "(node \<times> node list) list"

datatype error =
    OutOfRange
  | InvalidConfiguration
  | NodeNotFound
  | ZeroDivision
  | EmptyChoice

record world =
  rand :: "nat stream"
  out :: "string list"

text \<open>The attributes that \<^verbatim>\<open>__init__\<close> sets.\<close>

record sampler =
  number_of_nodes :: int
  seed :: int
  alpha :: real

text \<open>The attributes \<^verbatim>\<open>_current_node\<close> and \<^verbatim>\<open>_sampled_nodes\<close>, assigned afresh by
  \<^verbatim>\<open>_create_initial_node_set\<close> at each call of \<^verbatim>\<open>sample\<close>.\<close>

record walk =
  current_node :: node
  sampled_nodes :: "node fset"

text \<open>The local variables of the loop of \<^verbatim>\<open>sample\<close>.\<close>

record loop_state =
  walker :: walk
  stucking_iter :: int

subsection \<open>The console and the random module\<close>

definition print :: "string \<Rightarrow> world \<Rightarrow> world" where
  "print s w = w\<lparr>out := out w @ [s]\<rparr>"

text \<open>\<^verbatim>\<open>random.uniform(0, 1)\<close> is \<^verbatim>\<open>0 + (1 - 0) * random()\<close>, and \<^verbatim>\<open>random()\<close> is a 53-bit
  integer divided by \<open>2 ^ 53\<close>.\<close>

definition random_uniform01 :: "world \<Rightarrow> real \<times> world" where
  "random_uniform01 w =
     (real (shd (rand w) mod 2 ^ 53) / 2 ^ 53, w\<lparr>rand := stl (rand w)\<rparr>)"

text \<open>\<^verbatim>\<open>random.choice(seq)\<close>: \<^verbatim>\<open>IndexError\<close> on an empty sequence, else the element at
  an index drawn below the length.\<close>

definition random_choice :: "'a list \<Rightarrow> world \<Rightarrow> (error + 'a) \<times> world" where
  "random_choice xs w =
     (if xs = [] then (Inl EmptyChoice, w)
      else (Inr (xs ! (shd (rand w) mod length xs)), w\<lparr>rand := stl (rand w)\<rparr>))"

subsection \<open>The graph capability\<close>

text \<open>\<^verbatim>\<open>nx.neighbors(graph, n)\<close> raises when \<open>n\<close> is not a node of the graph.\<close>

definition nx_neighbors :: "graph \<Rightarrow> node \<Rightarrow> error + node list" where
  "nx_neighbors g v = (case map_of g v of None \<Rightarrow> Inl NodeNotFound | Some ns \<Rightarrow> Inr ns)"

text \<open>Modelled from the spec: the backend's \<^verbatim>\<open>get_number_of_nodes\<close> is missing from the
  sources; \<open>node_count(graph)\<close> is an integer \<open>\<ge> 0\<close>, the number of nodes.\<close>

definition get_number_of_nodes :: "graph \<Rightarrow> int" where
  "get_number_of_nodes g = int (length g)"

text \<open>Modelled from the spec: the backend's \<^verbatim>\<open>get_degree\<close> is missing from the sources;
  \<open>degree(graph, node)\<close> is an integer \<open>\<ge> 0\<close>, \<open>NotFound\<close> if the node is absent.  A
  self-loop counts twice, as usual for the degree.\<close>

definition get_degree :: "graph \<Rightarrow> node \<Rightarrow> error + int" where
  "get_degree g v =
     (case map_of g v of
        None \<Rightarrow> Inl NodeNotFound
      | Some ns \<Rightarrow> Inr (int (length ns) + (if v \<in> set ns then 1 else 0)))"

text \<open>Modelled from the spec: the backend's \<^verbatim>\<open>get_random_neighbor\<close> is missing from the
  sources; \<open>random_neighbor(graph, node)\<close> is one neighbour id, uniformly chosen (one
  draw).\<close>

definition get_random_neighbor :: "graph \<Rightarrow> node \<Rightarrow> world \<Rightarrow> (error + node) \<times> world" where
  "get_random_neighbor g v w =
     (case nx_neighbors g v of
        Inl e \<Rightarrow> (Inl e, w)
      | Inr ns \<Rightarrow> random_choice ns w)"

text \<open>Modelled from the spec: the backend's \<^verbatim>\<open>get_subgraph\<close> is missing from the sources;
  \<open>induced_subgraph(graph, node_set)\<close> is a new graph containing exactly those nodes and
  the edges between them present in the original.\<close>

definition get_subgraph :: "graph \<Rightarrow> node fset \<Rightarrow> graph" where
  "get_subgraph g S =
     map (\<lambda>(v, ns). (v, filter (\<lambda>u. u |\<in>| S) ns)) (filter (\<lambda>(v, ns). v |\<in>| S) g)"



subsection \<open>The sampler\<close>

text \<open>Modelled from the spec: \<^verbatim>\<open>_set_seed\<close> of the base class is missing from the
  sources; it makes the random stream the one of the configured seed.  The generator
  \<open>gen\<close>, from a seed to its stream, is Python's and is a parameter.\<close>

definition set_seed :: "(int \<Rightarrow> nat stream) \<Rightarrow> sampler \<Rightarrow> world \<Rightarrow> world" where
  "set_seed gen self w = w\<lparr>rand := gen (seed self)\<rparr>"

definition init :: "(int \<Rightarrow> nat stream) \<Rightarrow> int \<Rightarrow> int \<Rightarrow> real \<Rightarrow> world \<Rightarrow> sampler \<times> world" where
  "init gen n s a w =
     (let self = \<lparr>number_of_nodes = n, seed = s, alpha = a\<rparr>
      in (self, set_seed gen self w))"

text \<open>Modelled from the spec: \<^verbatim>\<open>_check_number_of_nodes\<close> of the base class is missing
  from the sources; \<open>sample\<close> fails with \<open>InvalidConfiguration\<close> if
  \<open>target_node_count > node_count(graph)\<close>.\<close>

definition check_number_of_nodes :: "sampler \<Rightarrow> graph \<Rightarrow> error + unit" where
  "check_number_of_nodes self g =
     (if number_of_nodes self > get_number_of_nodes g then Inl InvalidConfiguration
      else Inr ())"

definition create_initial_node_set ::
  "graph \<Rightarrow> node option \<Rightarrow> world \<Rightarrow> (error + walk) \<times> world" where
  "create_initial_node_set g start_node w =
     (case start_node of
        Some s \<Rightarrow>
          if s \<ge> 0 \<and> s < get_number_of_nodes g
          then (Inr \<lparr>current_node = s, sampled_nodes = {|s|}\<rparr>, w)
          else (Inl OutOfRange, w)
      | None \<Rightarrow>
          (case random_choice (map int [0 ..< nat (get_number_of_nodes g)]) w of
             (Inl e, w1) \<Rightarrow> (Inl e, w1)
           | (Inr c, w1) \<Rightarrow> (Inr \<lparr>current_node = c, sampled_nodes = {|c|}\<rparr>, w1)))"

definition do_a_step :: "sampler \<Rightarrow> graph \<Rightarrow> walk \<Rightarrow> world \<Rightarrow> (error + walk) \<times> world" where
  "do_a_step self g wk w =
     (case random_uniform01 w of
        (score, w1) \<Rightarrow>
          (case nx_neighbors g (current_node wk) of
             Inl e \<Rightarrow> (Inl e, w1)
           | Inr ns \<Rightarrow>
               if length ns = 0 then (Inr wk, print ''no neighbors'' w1)
               else
                 (case get_random_neighbor g (current_node wk) w1 of
                    (Inl e, w2) \<Rightarrow> (Inl e, w2)
                  | (Inr new_node, w2) \<Rightarrow>
                      (case get_degree g (current_node wk) of
                         Inl e \<Rightarrow> (Inl e, w2)
                       | Inr d_cur \<Rightarrow>
                           (case get_degree g new_node of
                              Inl e \<Rightarrow> (Inl e, w2)
                            | Inr d_new \<Rightarrow>
                                if d_new = 0 then (Inl ZeroDivision, w2)
                                else
                                  let ratio = real_of_int d_cur / real_of_int d_new;
                                      ratio = ratio powr alpha self
                                  in if score < ratio
                                     then (Inr \<lparr>current_node = new_node,
                                                sampled_nodes =
                                                  finsert new_node (sampled_nodes wk)\<rparr>, w2)
                                     else (Inr wk, w2))))))"

text \<open>One pass through the body of the \<^verbatim>\<open>while\<close> loop of \<^verbatim>\<open>sample\<close>; the flag says
  whether the pass ended in \<^verbatim>\<open>break\<close>.\<close>

definition loop_body ::
  "sampler \<Rightarrow> graph \<Rightarrow> int \<Rightarrow> loop_state \<Rightarrow> world \<Rightarrow> (error + bool \<times> loop_state) \<times> world" where
  "loop_body self g max_stucking_iter ls w =
     (let prev_sample_node_nums = fcard (sampled_nodes (walker ls));
          w1 = print ''starting a step'' w
      in case do_a_step self g (walker ls) w1 of
           (Inl e, w2) \<Rightarrow> (Inl e, w2)
         | (Inr wk, w2) \<Rightarrow>
             let new_sample_node_nums = fcard (sampled_nodes wk)
             in if prev_sample_node_nums = new_sample_node_nums
                then
                  let w3 = print ''no new sample'' w2;
                      si = stucking_iter ls + 1
                  in (Inr (si = max_stucking_iter, \<lparr>walker = wk, stucking_iter = si\<rparr>), w3)
                else (Inr (False, \<lparr>walker = wk, stucking_iter = 0\<rparr>), w2))"

definition loop_cond :: "sampler \<Rightarrow> loop_state \<Rightarrow> bool" where
  "loop_cond self ls \<longleftrightarrow> int (fcard (sampled_nodes (walker ls))) < number_of_nodes self"

text \<open>The \<^verbatim>\<open>while\<close> loop.  It need not end (\<open>max_stucking_iter \<le> 0\<close> on a walk that
  cannot grow), so not returning is the value \<open>None\<close>.\<close>

partial_function (option) sample_loop ::
  "sampler \<Rightarrow> graph \<Rightarrow> int \<Rightarrow> loop_state \<Rightarrow> world \<Rightarrow> ((error + loop_state) \<times> world) option" where
  "sample_loop self g max_stucking_iter ls w =
     (if loop_cond self ls then
        (case loop_body self g max_stucking_iter ls w of
           (Inl e, w') \<Rightarrow> Some (Inl e, w')
         | (Inr (brk, ls'), w') \<Rightarrow>
             if brk then Some (Inr ls', w')
             else sample_loop self g max_stucking_iter ls' w')
      else Some (Inr ls, w))"

text \<open>\<^verbatim>\<open>sample\<close>.  Its first call, \<^verbatim>\<open>_deploy_backend\<close>, picks the backend for the library of
  the graph; the graph capability above is the one backend of the model, so the call has
  no counterpart here.\<close>

definition sample ::
  "sampler \<Rightarrow> graph \<Rightarrow> int \<Rightarrow> node option \<Rightarrow> world \<Rightarrow> ((error + graph) \<times> world) option" where
  "sample self g max_stucking_iter start_node w =
     (case check_number_of_nodes self g of
        Inl e \<Rightarrow> Some (Inl e, w)
      | Inr _ \<Rightarrow>
          (case create_initial_node_set g start_node w of
             (Inl e, w1) \<Rightarrow> Some (Inl e, w1)
           | (Inr wk, w1) \<Rightarrow>
               (case sample_loop self g max_stucking_iter
                       \<lparr>walker = wk, stucking_iter = 0\<rparr> w1 of
                  None \<Rightarrow> None
                | Some (Inl e, w2) \<Rightarrow> Some (Inl e, w2)
                | Some (Inr ls, w2) \<Rightarrow>
                    Some (Inr (get_subgraph g (sampled_nodes (walker ls))), w2))))"

text \<open>The loop seen from outside: the state at the head of the loop after \<open>n\<close> full
  passes that neither raised nor broke out, if the run gets that far.\<close>

fun iterations ::
  "nat \<Rightarrow> sampler \<Rightarrow> graph \<Rightarrow> int \<Rightarrow> loop_state \<Rightarrow> world \<Rightarrow> (loop_state \<times> world) option" where
  "iterations 0 self g m ls w = Some (ls, w)"
| "iterations (Suc n) self g m ls w =
     (if loop_cond self ls then
        (case loop_body self g m ls w of
           (Inl e, w') \<Rightarrow> None
         | (Inr (brk, ls'), w') \<Rightarrow> if brk then None else iterations n self g m ls' w')
      else None)"

subsection \<open>Well-formed inputs\<close>



subsection \<open>Observing a run\<close>

text \<open>What the loop returns if it ends in the pass that starts in the given state: by
  the loop test, by an exception of the step, or by \<^verbatim>\<open>break\<close>.\<close>

definition loop_exit ::
  "sampler \<Rightarrow> graph \<Rightarrow> int \<Rightarrow> loop_state \<Rightarrow> world \<Rightarrow> ((error + loop_state) \<times> world) option" where
  "loop_exit self g m ls w =
     (if loop_cond self ls then
        (case loop_body self g m ls w of
           (Inl e, w') \<Rightarrow> Some (Inl e, w')
         | (Inr (brk, ls'), w') \<Rightarrow> if brk then Some (Inr ls', w') else None)
      else Some (Inr ls, w))"


subsection \<open>A sample run\<close>

text \<open>The path \<open>0 - 1 - 2\<close>, a sampler asked for three nodes that accepts every move, and a
  random source that always draws \<open>0\<close>: the walk goes from \<open>0\<close> to \<open>1\<close> and back.\<close>

definition path3 :: graph where
  "path3 = [(0, [1]), (1, [0, 2]), (2, [1])]"

definition walker3 :: sampler where
  "walker3 = \<lparr>number_of_nodes = 3, seed = 42, alpha = 0\<rparr>"

definition zeros :: world where
  "zeros = \<lparr>rand = sconst 0, out = []\<rparr>"


section \<open>Auxiliary facts\<close>







lemma do_a_step_cases:
  assumes "do_a_step self g wk w = (Inr wk', w')"
  shows "wk' = wk \<or>
         (\<exists>ns c. nx_neighbors g (current_node wk) = Inr ns \<and> c \<in> set ns \<and>
            wk' = \<lparr>current_node = c, sampled_nodes = finsert c (sampled_nodes wk)\<rparr>)"
proof (cases "nx_neighbors g (current_node wk)")
  case (Inl e)
  with assms show ?thesis by (simp add: do_a_step_def split: prod.splits)
next
  case (Inr ns)
  show ?thesis
  proof (cases "ns = []")
    case True
    with Inr assms show ?thesis by (simp add: do_a_step_def split: prod.splits)
  next
    case False
    have c: "ns ! (shd (rand w1) mod length ns) \<in> set ns" for w1 using False by simp
    from Inr False assms show ?thesis
      using c
      by (auto simp add: do_a_step_def Let_def get_random_neighbor_def random_choice_def
          split: prod.splits sum.splits if_splits)
  qed
qed

lemma do_a_step_mono:
  assumes "do_a_step self g wk w = (Inr wk', w')"
  shows "sampled_nodes wk |\<subseteq>| sampled_nodes wk'"
    and "fcard (sampled_nodes wk) \<le> fcard (sampled_nodes wk')"
    and "current_node wk |\<in>| sampled_nodes wk \<Longrightarrow> current_node wk' |\<in>| sampled_nodes wk'"
proof -
  from do_a_step_cases [OF assms]
  show s: "sampled_nodes wk |\<subseteq>| sampled_nodes wk'" by auto
  then show "fcard (sampled_nodes wk) \<le> fcard (sampled_nodes wk')" by (rule fcard_mono)
  from do_a_step_cases [OF assms]
  show "current_node wk |\<in>| sampled_nodes wk \<Longrightarrow> current_node wk' |\<in>| sampled_nodes wk'"
    by auto
qed

lemma loop_body_Inr:
  assumes "loop_body self g m ls w = (Inr (brk, ls'), w')"
  shows "\<exists>w2. do_a_step self g (walker ls) (print ''starting a step'' w) = (Inr (walker ls'), w2) \<and>
           (if fcard (sampled_nodes (walker ls)) = fcard (sampled_nodes (walker ls'))
            then stucking_iter ls' = stucking_iter ls + 1 \<and> (brk \<longleftrightarrow> stucking_iter ls' = m) \<and>
                 w' = print ''no new sample'' w2
            else stucking_iter ls' = 0 \<and> \<not> brk \<and> w' = w2)"
  using assms
  by (auto simp add: loop_body_def Let_def split: prod.splits sum.splits if_splits)

lemma iterations_sample_loop:
  "iterations n self g m ls w = Some (ls', w') \<Longrightarrow>
   sample_loop self g m ls w = sample_loop self g m ls' w'"
proof (induction n arbitrary: ls w)
  case 0
  then show ?case by simp
next
  case (Suc n)
  from Suc.prems obtain ls1 w1 where c: "loop_cond self ls"
    and b: "loop_body self g m ls w = (Inr (False, ls1), w1)"
    and i: "iterations n self g m ls1 w1 = Some (ls', w')"
    by (auto split: if_splits prod.splits sum.splits)
  from c b have "sample_loop self g m ls w = sample_loop self g m ls1 w1"
    by (subst sample_loop.simps) simp
  with Suc.IH [OF i] show ?case by simp
qed


lemma sample_loop_run:
  assumes "sample_loop self g m ls w = Some y"
  shows "\<exists>n ls1 w1. iterations n self g m ls w = Some (ls1, w1) \<and>
           loop_exit self g m ls1 w1 = Some y"
  using assms
proof (induction rule: sample_loop.raw_induct [rotated 1, consumes 1])
  case (1 sample_loop' self g m ls w y)
  show ?case
  proof (cases "loop_exit self g m ls w")
    case (Some z)
    with 1(2) have "z = y"
      by (auto simp add: loop_exit_def split: if_splits prod.splits sum.splits)
    with Some have "iterations 0 self g m ls w = Some (ls, w) \<and> loop_exit self g m ls w = Some y"
      by simp
    then show ?thesis by blast
  next
    case None
    then obtain ls1 w1 where c: "loop_cond self ls"
      and b: "loop_body self g m ls w = (Inr (False, ls1), w1)"
      by (auto simp add: loop_exit_def split: if_splits prod.splits sum.splits)
    with 1(2) have "sample_loop' self g m ls1 w1 = Some y" by simp
    from 1(1) [OF this] obtain n ls2 w2
      where "iterations n self g m ls1 w1 = Some (ls2, w2)" "loop_exit self g m ls2 w2 = Some y"
      by blast
    with c b have "iterations (Suc n) self g m ls w = Some (ls2, w2) \<and>
       loop_exit self g m ls2 w2 = Some y" by simp
    then show ?thesis by blast
  qed
qed


lemma iterations_invariant:
  assumes "iterations n self g m ls w = Some (ls', w')"
  shows "sampled_nodes (walker ls) |\<subseteq>| sampled_nodes (walker ls')"
    and "current_node (walker ls) |\<in>| sampled_nodes (walker ls) \<Longrightarrow>
         current_node (walker ls') |\<in>| sampled_nodes (walker ls')"
  using assms
proof (induction n arbitrary: ls w)
  case 0
  { case 1 then show ?case by simp }
  { case 2 then show ?case by simp }
next
  case (Suc n)
  { case 1
    from 1 obtain ls1 w1 where b: "loop_body self g m ls w = (Inr (False, ls1), w1)"
      and i: "iterations n self g m ls1 w1 = Some (ls', w')"
      by (auto split: if_splits prod.splits sum.splits)
    from loop_body_Inr [OF b] obtain w2
      where st: "do_a_step self g (walker ls) (print ''starting a step'' w) = (Inr (walker ls1), w2)"
      by blast
    from do_a_step_mono(1) [OF st] Suc.IH(1) [OF i] show ?case by auto }
  { case 2
    from 2 obtain ls1 w1 where b: "loop_body self g m ls w = (Inr (False, ls1), w1)"
      and i: "iterations n self g m ls1 w1 = Some (ls', w')"
      by (auto split: if_splits prod.splits sum.splits)
    from loop_body_Inr [OF b] obtain w2
      where st: "do_a_step self g (walker ls) (print ''starting a step'' w) = (Inr (walker ls1), w2)"
      by blast
    from do_a_step_mono(3) [OF st 2(1)] Suc.IH(2) [OF _ i] show ?case by auto }
qed

lemma loop_exit_invariant:
  assumes "loop_exit self g m ls w = Some (Inr ls', w')"
  shows "sampled_nodes (walker ls) |\<subseteq>| sampled_nodes (walker ls')"
    and "current_node (walker ls) |\<in>| sampled_nodes (walker ls) \<Longrightarrow>
         current_node (walker ls') |\<in>| sampled_nodes (walker ls')"
proof -
  from assms have "ls' = ls \<or> (\<exists>w2. do_a_step self g (walker ls) (print ''starting a step'' w)
      = (Inr (walker ls'), w2))"
    by (auto simp add: loop_exit_def dest: loop_body_Inr split: if_splits prod.splits sum.splits)
  then show "sampled_nodes (walker ls) |\<subseteq>| sampled_nodes (walker ls')"
    and "current_node (walker ls) |\<in>| sampled_nodes (walker ls) \<Longrightarrow>
         current_node (walker ls') |\<in>| sampled_nodes (walker ls')"
    using do_a_step_mono(1,3) by blast+
qed

lemma create_initial_node_set_Inr:
  assumes "create_initial_node_set g start w = (Inr wk, w')"
  shows "sampled_nodes wk = {|current_node wk|}"
    and "0 \<le> current_node wk \<and> current_node wk < get_number_of_nodes g"
proof -
  have r: "xs \<noteq> [] \<Longrightarrow> xs ! (k mod length xs) \<in> set xs" for xs :: "int list" and k by simp
  from assms show "sampled_nodes wk = {|current_node wk|}"
    by (auto simp add: create_initial_node_set_def random_choice_def
        split: option.splits if_splits prod.splits sum.splits)
  from assms show "0 \<le> current_node wk \<and> current_node wk < get_number_of_nodes g"
  proof (cases start)
    case (Some s)
    with assms show ?thesis
      by (auto simp add: create_initial_node_set_def split: if_splits)
  next
    case None
    let ?xs = "map int [0 ..< nat (get_number_of_nodes g)]"
    from None assms have ne: "?xs \<noteq> []" and
      c: "current_node wk = ?xs ! (shd (rand w) mod length ?xs)"
      by (auto simp add: create_initial_node_set_def random_choice_def
        split: if_splits prod.splits sum.splits)
    from r [OF ne] c have "current_node wk \<in> set ?xs" by simp
    then show ?thesis by auto
  qed
qed
















lemma iterations_snoc:
  "iterations n self g m ls0 w0 = Some (ls, w) \<Longrightarrow> loop_cond self ls \<Longrightarrow>
   loop_body self g m ls w = (Inr (False, ls'), w') \<Longrightarrow>
   iterations (Suc n) self g m ls0 w0 = Some (ls', w')"
proof (induction n arbitrary: ls0 w0)
  case 0
  then show ?case by simp
next
  case (Suc n)
  from Suc.prems(1) obtain ls1 w1 where c: "loop_cond self ls0"
    and b: "loop_body self g m ls0 w0 = (Inr (False, ls1), w1)"
    and i: "iterations n self g m ls1 w1 = Some (ls, w)"
    by (auto split: if_splits prod.splits sum.splits)
  from Suc.IH [OF i Suc.prems(2,3)] have "iterations (Suc n) self g m ls1 w1 = Some (ls', w')" .
  with c b show ?case by (simp del: iterations.simps(2) add: iterations.simps(2) [of "Suc n"])
qed







lemmas eval_defs = do_a_step_def random_uniform01_def nx_neighbors_def get_random_neighbor_def
  random_choice_def get_degree_def print_def Let_def loop_body_def loop_cond_def
  fcard_finsert_if fcard_fempty check_number_of_nodes_def get_number_of_nodes_def
  create_initial_node_set_def



lemma path3_check: "check_number_of_nodes walker3 path3 = Inr ()"
  by (simp add: eval_defs path3_def walker3_def)

lemma path3_init:
  "create_initial_node_set path3 (Some 0) zeros =
     (Inr \<lparr>current_node = 0, sampled_nodes = {|0|}\<rparr>, zeros)"
  by (simp add: eval_defs path3_def)

lemma path3_first:
  "iterations (Suc 0) walker3 path3 1
     \<lparr>walker = \<lparr>current_node = 0, sampled_nodes = {|0|}\<rparr>, stucking_iter = 0\<rparr> zeros =
   Some (\<lparr>walker = \<lparr>current_node = 1, sampled_nodes = {|1, 0|}\<rparr>, stucking_iter = 0\<rparr>,
         \<lparr>rand = sconst 0, out = [''starting a step'']\<rparr>)"
  by (simp add: eval_defs path3_def walker3_def zeros_def)

lemma path3_cond:
  "loop_cond walker3 \<lparr>walker = \<lparr>current_node = 1, sampled_nodes = {|1, 0|}\<rparr>, stucking_iter = 0\<rparr>"
  by (simp add: eval_defs walker3_def)

lemma path3_second:
  "loop_body walker3 path3 1
     \<lparr>walker = \<lparr>current_node = 1, sampled_nodes = {|1, 0|}\<rparr>, stucking_iter = 0\<rparr>
     \<lparr>rand = sconst 0, out = [''starting a step'']\<rparr> =
   (Inr (True, \<lparr>walker = \<lparr>current_node = 0, sampled_nodes = {|0, 1, 0|}\<rparr>, stucking_iter = 1\<rparr>),
    \<lparr>rand = sconst 0, out = [''starting a step'', ''starting a step'', ''no new sample'']\<rparr>)"
  by (simp add: eval_defs path3_def walker3_def)

lemma path3_loop:
  "sample_loop walker3 path3 1
     \<lparr>walker = \<lparr>current_node = 0, sampled_nodes = {|0|}\<rparr>, stucking_iter = 0\<rparr> zeros =
   Some (Inr \<lparr>walker = \<lparr>current_node = 0, sampled_nodes = {|0, 1, 0|}\<rparr>, stucking_iter = 1\<rparr>,
    \<lparr>rand = sconst 0, out = [''starting a step'', ''starting a step'', ''no new sample'']\<rparr>)"
proof -
  have "sample_loop walker3 path3 1
     \<lparr>walker = \<lparr>current_node = 1, sampled_nodes = {|1, 0|}\<rparr>, stucking_iter = 0\<rparr>
     \<lparr>rand = sconst 0, out = [''starting a step'']\<rparr> =
   Some (Inr \<lparr>walker = \<lparr>current_node = 0, sampled_nodes = {|0, 1, 0|}\<rparr>, stucking_iter = 1\<rparr>,
    \<lparr>rand = sconst 0, out = [''starting a step'', ''starting a step'', ''no new sample'']\<rparr>)"
    by (subst sample_loop.simps) (simp add: path3_cond path3_second)
  with iterations_sample_loop [OF path3_first] show ?thesis by simp
qed

lemma path3_subgraph: "get_subgraph path3 {|0, 1, 0|} = [(0, [1]), (1, [0])]"
  by (simp add: get_subgraph_def path3_def)



lemma path3_cond0:
  "loop_cond walker3 \<lparr>walker = \<lparr>current_node = 0, sampled_nodes = {|0|}\<rparr>, stucking_iter = 0\<rparr>"
  by (simp add: eval_defs walker3_def)

lemma path3_first_body:
  "loop_body walker3 path3 1
     \<lparr>walker = \<lparr>current_node = 0, sampled_nodes = {|0|}\<rparr>, stucking_iter = 0\<rparr> zeros =
   (Inr (False, \<lparr>walker = \<lparr>current_node = 1, sampled_nodes = {|1, 0|}\<rparr>, stucking_iter = 0\<rparr>),
    \<lparr>rand = sconst 0, out = [''starting a step'']\<rparr>)"
  by (simp add: eval_defs path3_def walker3_def zeros_def)

section \<open>The step\<close>








section \<open>Validation\<close>

text \<open>
  C5, as stated: whenever an explicit start node is out of range, \<open>sample\<close> fails with the
  out-of-range error.  Not when the requested number of nodes exceeds the size of the
  graph as well: that check comes first and its error is the one raised.
\<close>

theorem start_node_out_of_range_counterexample:
  "\<not> (0 \<le> (5::int) \<and> 5 < get_number_of_nodes [(0, [])]) \<and>
   sample \<lparr>number_of_nodes = 2, seed = 42, alpha = 1\<rparr> [(0, [])] 50 (Some 5)
      \<lparr>rand = sconst 0, out = []\<rparr>
     = Some (Inl InvalidConfiguration, \<lparr>rand = sconst 0, out = []\<rparr>)"
  by (simp add: sample_def check_number_of_nodes_def get_number_of_nodes_def)

text \<open>
  C5, amended.  When the requested number of nodes does not exceed the size of the graph:
  an explicit start node outside \<open>[0, node_count)\<close> makes the initialisation, and with it
  \<open>sample\<close>, fail with the out-of-range error, the world untouched (nothing printed,
  nothing drawn: no step has run); a start node inside the range becomes the current node
  and the only sampled node.
\<close>

theorem start_node_validation:
  assumes "number_of_nodes self \<le> get_number_of_nodes g"
  shows "(\<not> (0 \<le> s \<and> s < get_number_of_nodes g) \<longrightarrow>
            create_initial_node_set g (Some s) w = (Inl OutOfRange, w) \<and>
            sample self g m (Some s) w = Some (Inl OutOfRange, w)) \<and>
         (0 \<le> s \<and> s < get_number_of_nodes g \<longrightarrow>
            create_initial_node_set g (Some s) w =
              (Inr \<lparr>current_node = s, sampled_nodes = {|s|}\<rparr>, w))"
  using assms by (simp add: sample_def check_number_of_nodes_def create_initial_node_set_def)

theorem start_node_validation_witness:
  "number_of_nodes \<lparr>number_of_nodes = 1, seed = 42, alpha = 1\<rparr> \<le> get_number_of_nodes [(0, [])] \<and>
   sample \<lparr>number_of_nodes = 1, seed = 42, alpha = 1\<rparr> [(0, [])] 50 (Some 5)
       \<lparr>rand = sconst 0, out = []\<rparr> = Some (Inl OutOfRange, \<lparr>rand = sconst 0, out = []\<rparr>) \<and>
   create_initial_node_set [(0, [])] (Some 0) \<lparr>rand = sconst 0, out = []\<rparr> =
       (Inr \<lparr>current_node = 0, sampled_nodes = {|0|}\<rparr>, \<lparr>rand = sconst 0, out = []\<rparr>)"
proof -
  have h: "number_of_nodes \<lparr>number_of_nodes = 1, seed = 42, alpha = 1\<rparr> \<le> get_number_of_nodes [(0, [])]"
    by (simp add: get_number_of_nodes_def)
  show ?thesis
    using h start_node_validation [OF h, of 5 "\<lparr>rand = sconst 0, out = []\<rparr>" 50]
      start_node_validation [OF h, of 0 "\<lparr>rand = sconst 0, out = []\<rparr>" 50]
    by (simp add: get_number_of_nodes_def)
qed

text \<open>
  C6.  When the requested number of nodes exceeds the number of nodes of the graph,
  \<open>sample\<close> fails with the invalid-configuration error whatever the start node and the
  random stream, and leaves the world untouched: nothing was printed and nothing drawn,
  so no step ran and no walk state was made.
\<close>

theorem target_too_large:
  "number_of_nodes self > get_number_of_nodes g \<Longrightarrow>
   sample self g m start w = Some (Inl InvalidConfiguration, w)"
  by (simp add: sample_def check_number_of_nodes_def)

theorem target_too_large_witness:
  "number_of_nodes \<lparr>number_of_nodes = 2, seed = 42, alpha = 1\<rparr> > get_number_of_nodes [(0, [])] \<and>
   sample \<lparr>number_of_nodes = 2, seed = 42, alpha = 1\<rparr> [(0, [])] 50 None \<lparr>rand = sconst 0, out = []\<rparr>
     = Some (Inl InvalidConfiguration, \<lparr>rand = sconst 0, out = []\<rparr>)"
  using target_too_large [of "[(0, [])]" "\<lparr>number_of_nodes = 2, seed = 42, alpha = 1\<rparr>" 50 None
      "\<lparr>rand = sconst 0, out = []\<rparr>"]
  by (simp add: get_number_of_nodes_def)

section \<open>The sampling loop\<close>

text \<open>
  C2.  In every run of the loop of \<open>sample\<close>, after each pass: if the number of sampled
  nodes did not grow, the stall counter is incremented and the loop is left exactly when
  the counter equals \<open>max_stucking_iter\<close>; if it grew, the counter is reset to \<open>0\<close> and the
  loop goes on.  Only the size counts: an accepted move to a node sampled before
  increments the counter.  A run left by the stall counter returns the induced subgraph
  of the sampled nodes, not an error.
\<close>

theorem stall_bookkeeping:
  assumes chk: "check_number_of_nodes self g = Inr ()"
    and init: "create_initial_node_set g start w0 = (Inr wk0, w1)"
    and run: "iterations n self g m \<lparr>walker = wk0, stucking_iter = 0\<rparr> w1 = Some (ls, w)"
    and cond: "loop_cond self ls"
    and body: "loop_body self g m ls w = (Inr (brk, ls'), w')"
  shows "(fcard (sampled_nodes (walker ls')) = fcard (sampled_nodes (walker ls)) \<longrightarrow>
            stucking_iter ls' = stucking_iter ls + 1 \<and> (brk \<longleftrightarrow> stucking_iter ls' = m)) \<and>
         (fcard (sampled_nodes (walker ls')) \<noteq> fcard (sampled_nodes (walker ls)) \<longrightarrow>
            fcard (sampled_nodes (walker ls)) < fcard (sampled_nodes (walker ls')) \<and>
            stucking_iter ls' = 0 \<and> \<not> brk) \<and>
         (current_node (walker ls') \<noteq> current_node (walker ls) \<and>
          current_node (walker ls') |\<in>| sampled_nodes (walker ls) \<longrightarrow>
            stucking_iter ls' = stucking_iter ls + 1) \<and>
         (brk \<longrightarrow> sample self g m start w0 =
                    Some (Inr (get_subgraph g (sampled_nodes (walker ls'))), w')) \<and>
         (\<not> brk \<longrightarrow> iterations (Suc n) self g m \<lparr>walker = wk0, stucking_iter = 0\<rparr> w1 =
                    Some (ls', w'))"
proof -
  from loop_body_Inr [OF body] obtain w2
    where st: "do_a_step self g (walker ls) (print ''starting a step'' w) = (Inr (walker ls'), w2)"
      and bk: "if fcard (sampled_nodes (walker ls)) = fcard (sampled_nodes (walker ls'))
            then stucking_iter ls' = stucking_iter ls + 1 \<and> (brk \<longleftrightarrow> stucking_iter ls' = m) \<and>
                 w' = print ''no new sample'' w2
            else stucking_iter ls' = 0 \<and> \<not> brk \<and> w' = w2"
    by blast
  have le: "fcard (sampled_nodes (walker ls)) \<le> fcard (sampled_nodes (walker ls'))"
    by (rule do_a_step_mono(2) [OF st])
  have a: "fcard (sampled_nodes (walker ls')) = fcard (sampled_nodes (walker ls)) \<longrightarrow>
            stucking_iter ls' = stucking_iter ls + 1 \<and> (brk \<longleftrightarrow> stucking_iter ls' = m)"
    using bk by (auto split: if_splits)
  have b: "fcard (sampled_nodes (walker ls')) \<noteq> fcard (sampled_nodes (walker ls)) \<longrightarrow>
            fcard (sampled_nodes (walker ls)) < fcard (sampled_nodes (walker ls')) \<and>
            stucking_iter ls' = 0 \<and> \<not> brk"
    using bk le by (auto split: if_splits)
  have c: "current_node (walker ls') \<noteq> current_node (walker ls) \<and>
          current_node (walker ls') |\<in>| sampled_nodes (walker ls) \<longrightarrow>
            stucking_iter ls' = stucking_iter ls + 1"
  proof
    assume h: "current_node (walker ls') \<noteq> current_node (walker ls) \<and>
          current_node (walker ls') |\<in>| sampled_nodes (walker ls)"
    with do_a_step_cases [OF st] obtain c
      where "walker ls' = \<lparr>current_node = c, sampled_nodes = finsert c (sampled_nodes (walker ls))\<rparr>"
      by auto
    with h have "sampled_nodes (walker ls') = sampled_nodes (walker ls)" by auto
    with a show "stucking_iter ls' = stucking_iter ls + 1" by simp
  qed
  have d: "brk \<longrightarrow> sample self g m start w0 =
                    Some (Inr (get_subgraph g (sampled_nodes (walker ls'))), w')"
  proof
    assume brk
    with cond body have "sample_loop self g m ls w = Some (Inr ls', w')"
      by (subst sample_loop.simps) simp
    with iterations_sample_loop [OF run]
    have "sample_loop self g m \<lparr>walker = wk0, stucking_iter = 0\<rparr> w1 = Some (Inr ls', w')" by simp
    with chk init show "sample self g m start w0 =
                    Some (Inr (get_subgraph g (sampled_nodes (walker ls'))), w')"
      by (simp add: sample_def)
  qed
  have e: "\<not> brk \<longrightarrow> iterations (Suc n) self g m \<lparr>walker = wk0, stucking_iter = 0\<rparr> w1 =
                    Some (ls', w')"
    using iterations_snoc [OF run cond] body by auto
  from a b c d e show ?thesis by blast
qed

theorem stall_bookkeeping_witness:
  "check_number_of_nodes walker3 path3 = Inr () \<and>
   create_initial_node_set path3 (Some 0) zeros =
     (Inr \<lparr>current_node = 0, sampled_nodes = {|0|}\<rparr>, zeros) \<and>
   loop_cond walker3
     \<lparr>walker = \<lparr>current_node = 0, sampled_nodes = {|0|}\<rparr>, stucking_iter = 0\<rparr> \<and>
   loop_body walker3 path3 1
     \<lparr>walker = \<lparr>current_node = 0, sampled_nodes = {|0|}\<rparr>, stucking_iter = 0\<rparr> zeros =
     (Inr (False, \<lparr>walker = \<lparr>current_node = 1, sampled_nodes = {|1, 0|}\<rparr>, stucking_iter = 0\<rparr>),
      \<lparr>rand = sconst 0, out = [''starting a step'']\<rparr>) \<and>
   iterations (Suc 0) walker3 path3 1
     \<lparr>walker = \<lparr>current_node = 0, sampled_nodes = {|0|}\<rparr>, stucking_iter = 0\<rparr> zeros =
     Some (\<lparr>walker = \<lparr>current_node = 1, sampled_nodes = {|1, 0|}\<rparr>, stucking_iter = 0\<rparr>,
           \<lparr>rand = sconst 0, out = [''starting a step'']\<rparr>) \<and>
   loop_cond walker3
     \<lparr>walker = \<lparr>current_node = 1, sampled_nodes = {|1, 0|}\<rparr>, stucking_iter = 0\<rparr> \<and>
   loop_body walker3 path3 1
     \<lparr>walker = \<lparr>current_node = 1, sampled_nodes = {|1, 0|}\<rparr>, stucking_iter = 0\<rparr>
     \<lparr>rand = sconst 0, out = [''starting a step'']\<rparr> =
     (Inr (True, \<lparr>walker = \<lparr>current_node = 0, sampled_nodes = {|0, 1, 0|}\<rparr>, stucking_iter = 1\<rparr>),
      \<lparr>rand = sconst 0, out = [''starting a step'', ''starting a step'', ''no new sample'']\<rparr>) \<and>
   sample walker3 path3 1 (Some 0) zeros =
     Some (Inr [(0, [1]), (1, [0])],
      \<lparr>rand = sconst 0, out = [''starting a step'', ''starting a step'', ''no new sample'']\<rparr>)"
proof -
  have z: "iterations 0 walker3 path3 1
     \<lparr>walker = \<lparr>current_node = 0, sampled_nodes = {|0|}\<rparr>, stucking_iter = 0\<rparr> zeros =
     Some (\<lparr>walker = \<lparr>current_node = 0, sampled_nodes = {|0|}\<rparr>, stucking_iter = 0\<rparr>, zeros)"
    by simp
  from stall_bookkeeping [OF path3_check path3_init z path3_cond0 path3_first_body]
  have one: "iterations (Suc 0) walker3 path3 1
     \<lparr>walker = \<lparr>current_node = 0, sampled_nodes = {|0|}\<rparr>, stucking_iter = 0\<rparr> zeros =
     Some (\<lparr>walker = \<lparr>current_node = 1, sampled_nodes = {|1, 0|}\<rparr>, stucking_iter = 0\<rparr>,
           \<lparr>rand = sconst 0, out = [''starting a step'']\<rparr>)"
    by blast
  from stall_bookkeeping [OF path3_check path3_init one path3_cond path3_second]
    one path3_check path3_init path3_cond0 path3_first_body path3_cond path3_second path3_subgraph
  show ?thesis by simp
qed

text \<open>
  C3.  In every run and after any number of passes of the loop, the current node is a
  sampled node (from the initialisation on, and in the state the loop returns), and the
  sampled nodes only grow, so their number never decreases.
\<close>

theorem visited_monotone:
  assumes init: "create_initial_node_set g start w0 = (Inr wk0, w1)"
    and run: "iterations n self g m \<lparr>walker = wk0, stucking_iter = 0\<rparr> w1 = Some (ls, w)"
    and more: "iterations k self g m ls w = Some (ls', w')"
  shows "current_node wk0 |\<in>| sampled_nodes wk0 \<and>
         current_node (walker ls) |\<in>| sampled_nodes (walker ls) \<and>
         current_node (walker ls') |\<in>| sampled_nodes (walker ls') \<and>
         sampled_nodes (walker ls) |\<subseteq>| sampled_nodes (walker ls') \<and>
         fcard (sampled_nodes (walker ls)) \<le> fcard (sampled_nodes (walker ls')) \<and>
         (\<forall>lsf wf. sample_loop self g m ls' w' = Some (Inr lsf, wf) \<longrightarrow>
            current_node (walker lsf) |\<in>| sampled_nodes (walker lsf) \<and>
            sampled_nodes (walker ls') |\<subseteq>| sampled_nodes (walker lsf) \<and>
            fcard (sampled_nodes (walker ls')) \<le> fcard (sampled_nodes (walker lsf)))"
proof -
  from create_initial_node_set_Inr(1) [OF init]
  have i0: "current_node wk0 |\<in>| sampled_nodes wk0" by simp
  from iterations_invariant(2) [OF run] i0
  have i1: "current_node (walker ls) |\<in>| sampled_nodes (walker ls)" by simp
  from iterations_invariant(2) [OF more i1]
  have i2: "current_node (walker ls') |\<in>| sampled_nodes (walker ls')" .
  from iterations_invariant(1) [OF more]
  have s: "sampled_nodes (walker ls) |\<subseteq>| sampled_nodes (walker ls')" .
  have f: "current_node (walker lsf) |\<in>| sampled_nodes (walker lsf) \<and>
            sampled_nodes (walker ls') |\<subseteq>| sampled_nodes (walker lsf) \<and>
            fcard (sampled_nodes (walker ls')) \<le> fcard (sampled_nodes (walker lsf))"
    if l: "sample_loop self g m ls' w' = Some (Inr lsf, wf)" for lsf wf
  proof -
    from sample_loop_run [OF l] obtain j ls1 w1'
      where i: "iterations j self g m ls' w' = Some (ls1, w1')"
        and e: "loop_exit self g m ls1 w1' = Some (Inr lsf, wf)" by blast
    from iterations_invariant [OF i] i2
    have "sampled_nodes (walker ls') |\<subseteq>| sampled_nodes (walker ls1)"
      "current_node (walker ls1) |\<in>| sampled_nodes (walker ls1)" by simp_all
    with loop_exit_invariant [OF e]
    have "sampled_nodes (walker ls') |\<subseteq>| sampled_nodes (walker lsf)"
      "current_node (walker lsf) |\<in>| sampled_nodes (walker lsf)" by auto
    then show ?thesis by (simp add: fcard_mono)
  qed
  from i0 i1 i2 s f show ?thesis by (simp add: fcard_mono)
qed

theorem visited_monotone_witness:
  "create_initial_node_set path3 (Some 0) zeros =
     (Inr \<lparr>current_node = 0, sampled_nodes = {|0|}\<rparr>, zeros) \<and>
   iterations 0 walker3 path3 1
     \<lparr>walker = \<lparr>current_node = 0, sampled_nodes = {|0|}\<rparr>, stucking_iter = 0\<rparr> zeros =
     Some (\<lparr>walker = \<lparr>current_node = 0, sampled_nodes = {|0|}\<rparr>, stucking_iter = 0\<rparr>, zeros) \<and>
   iterations (Suc 0) walker3 path3 1
     \<lparr>walker = \<lparr>current_node = 0, sampled_nodes = {|0|}\<rparr>, stucking_iter = 0\<rparr> zeros =
     Some (\<lparr>walker = \<lparr>current_node = 1, sampled_nodes = {|1, 0|}\<rparr>, stucking_iter = 0\<rparr>,
           \<lparr>rand = sconst 0, out = [''starting a step'']\<rparr>) \<and>
   sample_loop walker3 path3 1
     \<lparr>walker = \<lparr>current_node = 1, sampled_nodes = {|1, 0|}\<rparr>, stucking_iter = 0\<rparr>
     \<lparr>rand = sconst 0, out = [''starting a step'']\<rparr> =
     Some (Inr \<lparr>walker = \<lparr>current_node = 0, sampled_nodes = {|0, 1, 0|}\<rparr>, stucking_iter = 1\<rparr>,
      \<lparr>rand = sconst 0, out = [''starting a step'', ''starting a step'', ''no new sample'']\<rparr>) \<and>
   {|0|} |\<subseteq>| {|1, 0::int|} \<and> fcard {|0::int|} \<le> fcard {|1, 0::int|} \<and>
   {|1, 0|} |\<subseteq>| {|0, 1, 0::int|} \<and> (0::int) |\<in>| {|0, 1, 0|}"
proof -
  have z: "iterations 0 walker3 path3 1
     \<lparr>walker = \<lparr>current_node = 0, sampled_nodes = {|0|}\<rparr>, stucking_iter = 0\<rparr> zeros =
     Some (\<lparr>walker = \<lparr>current_node = 0, sampled_nodes = {|0|}\<rparr>, stucking_iter = 0\<rparr>, zeros)"
    by simp
  have l: "sample_loop walker3 path3 1
     \<lparr>walker = \<lparr>current_node = 1, sampled_nodes = {|1, 0|}\<rparr>, stucking_iter = 0\<rparr>
     \<lparr>rand = sconst 0, out = [''starting a step'']\<rparr> =
     Some (Inr \<lparr>walker = \<lparr>current_node = 0, sampled_nodes = {|0, 1, 0|}\<rparr>, stucking_iter = 1\<rparr>,
      \<lparr>rand = sconst 0, out = [''starting a step'', ''starting a step'', ''no new sample'']\<rparr>)"
    using iterations_sample_loop [OF path3_first] path3_loop by simp
  from visited_monotone [OF path3_init z path3_first] path3_init z path3_first l
  show ?thesis by simp
qed







end
